theory Spec2Isabelle
  imports Complex_Main
begin

section \<open>JavaScript values\<close>

text \<open>
  The wrapper (\<^verbatim>\<open>src/libraries/solc/wrapper.js\<close>) works on the values that
  \<^verbatim>\<open>JSON.parse\<close> produces and on \<^verbatim>\<open>undefined\<close>. A number is an IEEE double; the
  ones \<^verbatim>\<open>JSON.parse\<close> can return are the finite doubles (each a rational, with
  \<open>-0\<close> identified with \<open>0\<close>: the wrapper cannot tell them apart) and the two
  infinities. A string is a sequence of code units, one \<open>char\<close> each (so only code
  units below 256 occur). An object is the
  list of its own enumerable properties in the order \<^verbatim>\<open>for ... in\<close> visits them, with
  distinct keys.
\<close>

datatype jsnum = Fin rat | PosInf | NegInf

datatype jsval =
    Undefined
  | Null
  | Bool bool
  | Num jsnum
  | Str string
  | Arr "jsval list"
  | Obj "(string \<times> jsval) list"

text \<open>What the wrapper can raise or let through.\<close>

datatype exn =
    TypeError
  | AssertionError string
  | Fault string

text \<open>The decimal name of an array index, as \<^verbatim>\<open>for ... in\<close> and \<^verbatim>\<open>a[i]\<close> use it.\<close>

definition digit :: "nat \<Rightarrow> char" where
  "digit d = ''0123456789'' ! d"

function string_of_nat :: "nat \<Rightarrow> string" where
  "string_of_nat n =
     (if n < 10 then [digit n]
      else string_of_nat (n div 10) @ [digit (n mod 10)])"
  by pat_completeness auto
termination
  by (relation "measure id") auto

text \<open>
  \<^verbatim>\<open>v[k]\<close>: reading a property of \<^verbatim>\<open>null\<close> or \<^verbatim>\<open>undefined\<close> raises a TypeError. The
  keys the wrapper reads are the literals \<^verbatim>\<open>language\<close>, \<^verbatim>\<open>sources\<close>, \<^verbatim>\<open>length\<close>,
  \<^verbatim>\<open>settings\<close>, \<^verbatim>\<open>optimizer\<close>, \<^verbatim>\<open>enabled\<close>, \<^verbatim>\<open>libraries\<close>, \<^verbatim>\<open>content\<close>,
  \<^verbatim>\<open>contents\<close>, \<^verbatim>\<open>error\<close> and the keys \<^verbatim>\<open>for ... in\<close> gave it, so the only
  inherited property that is ever found is \<^verbatim>\<open>length\<close> of an array or a string.
\<close>

fun get_prop :: "jsval \<Rightarrow> string \<Rightarrow> exn + jsval" where
  "get_prop Undefined k = Inl TypeError"
| "get_prop Null k = Inl TypeError"
| "get_prop (Bool b) k = Inr Undefined"
| "get_prop (Num n) k = Inr Undefined"
| "get_prop (Str s) k =
     (if k = ''length'' then Inr (Num (Fin (of_nat (length s))))
      else case find (\<lambda>i. string_of_nat i = k) [0..<length s] of
             Some i \<Rightarrow> Inr (Str [s ! i])
           | None \<Rightarrow> Inr Undefined)"
| "get_prop (Arr xs) k =
     (if k = ''length'' then Inr (Num (Fin (of_nat (length xs))))
      else case find (\<lambda>i. string_of_nat i = k) [0..<length xs] of
             Some i \<Rightarrow> Inr (xs ! i)
           | None \<Rightarrow> Inr Undefined)"
| "get_prop (Obj ps) k =
     (case map_of ps k of Some v \<Rightarrow> Inr v | None \<Rightarrow> Inr Undefined)"

text \<open>The keys a \<^verbatim>\<open>for (const k in v)\<close> loop visits, in order.\<close>

fun for_in_keys :: "jsval \<Rightarrow> string list" where
  "for_in_keys (Obj ps) = map fst ps"
| "for_in_keys (Arr xs) = map string_of_nat [0..<length xs]"
| "for_in_keys (Str s) = map string_of_nat [0..<length s]"
| "for_in_keys v = []"

text \<open>
  \<^verbatim>\<open>o[k] = v\<close> on a plain object built by the wrapper. The key \<^verbatim>\<open>__proto__\<close> reaches
  the inherited setter, which creates no own property. The keys arrive in property
  order, so a new key goes last.
\<close>

definition set_prop :: "(string \<times> jsval) list \<Rightarrow> string \<Rightarrow> jsval \<Rightarrow> (string \<times> jsval) list" where
  "set_prop ps k v =
     (if k = ''__proto__'' then ps
      else if k \<in> fst ` set ps then map (\<lambda>(k', v'). if k' = k then (k', v) else (k', v')) ps
      else ps @ [(k, v)])"

text \<open>Truthiness, and \<^verbatim>\<open>v == null\<close>.\<close>

fun truthy :: "jsval \<Rightarrow> bool" where
  "truthy Undefined = False"
| "truthy Null = False"
| "truthy (Bool b) = b"
| "truthy (Num n) = (n \<noteq> Fin 0)"
| "truthy (Str s) = (s \<noteq> [])"
| "truthy (Arr xs) = True"
| "truthy (Obj ps) = True"

definition loosely_null :: "jsval \<Rightarrow> bool" where
  "loosely_null v = (v = Null \<or> v = Undefined)"

fun typeof_string :: "jsval \<Rightarrow> string option" where
  "typeof_string (Str s) = Some s"
| "typeof_string v = None"

section \<open>The environment of the wrapper\<close>

text \<open>
  The four compile entry points, named after the variables of \<^verbatim>\<open>setupMethods\<close> that
  hold them, and what the wrapper does to the world outside it: registering and
  removing a function pointer, calling a native entry point (with the symbol that
  \<^verbatim>\<open>cwrap\<close> bound and the arguments), and calling the output translator (with its
  arguments).
\<close>

datatype entry_point = CompileJSON | CompileJSONMulti | CompileJSONCallback | CompileStandard

datatype event =
    AddFunction nat
  | RemoveFunction nat
  | NativeCall entry_point string "jsval list"
  | TranslateCall "jsval list"

text \<open>
  The read callback as the caller passes it: absent, a function from a path to a
  result object (it may raise), or some other value.
\<close>

datatype callback =
    UndefinedCb
  | FunctionCb "string \<Rightarrow> exn + jsval"
  | OtherCb

fun is_undefined :: "callback \<Rightarrow> bool" where
  "is_undefined UndefinedCb = True"
| "is_undefined c = False"

fun typeof_function :: "callback \<Rightarrow> bool" where
  "typeof_function (FunctionCb f) = True"
| "typeof_function c = False"

text \<open>
  The native-callable function that \<^verbatim>\<open>wrapCallback\<close> returns: given the path it
  yields what \<^verbatim>\<open>copyString\<close> stores in the contents slot and in the error slot
  (nothing where the slot is left untouched), or raises.
\<close>

type_synonym bridge = "string \<Rightarrow> exn + (string option \<times> string option)"

text \<open>
  What the wrapper calls and does not define: the built-ins \<^verbatim>\<open>JSON.parse\<close> (the
  message of its SyntaxError on the left), \<^verbatim>\<open>JSON.stringify\<close> and the conversion of a
  string, array or object to a number (\<open>None\<close> is NaN); \<^verbatim>\<open>translateJsonCompilerOutput\<close> of
  \<^verbatim>\<open>translate.js\<close>, which receives its argument list; the native entry points of the
  Emscripten module, by symbol, which may call back into the registered bridge; and
  the module's \<^verbatim>\<open>addFunction\<close> and \<^verbatim>\<open>removeFunction\<close> (found on the module or on
  its \<^verbatim>\<open>Runtime\<close>), the first of which chooses the pointer from the history so far.
\<close>

record env =
  json_parse :: "string \<Rightarrow> string + jsval"
  json_stringify :: "jsval \<Rightarrow> string"
  to_number :: "jsval \<Rightarrow> exn + jsnum option"
  translateJsonCompilerOutput :: "jsval list \<Rightarrow> exn + jsval"
  native :: "string \<Rightarrow> jsval list \<Rightarrow> bridge option \<Rightarrow> exn + string"
  addFunction :: "event list \<Rightarrow> exn + nat"
  removeFunction :: "nat \<Rightarrow> exn option"

section \<open>setupMethods: capability detection\<close>

text \<open>
  The module handle is read only through \<^verbatim>\<open>'_name' in soljson\<close>: it is the set of
  its property names. Each entry point found is bound through \<^verbatim>\<open>cwrap\<close> to a symbol.
\<close>

record handle =
  exports :: "string set"

record methods =
  compileJSON :: "string option"
  compileJSONMulti :: "string option"
  compileJSONCallback :: "string option"
  compileStandard :: "string option"
  version :: string
  license :: "string option"

definition setupMethods :: "handle \<Rightarrow> methods" where
  "setupMethods soljson =
     \<lparr> compileJSON =
         (if ''_compileJSON'' \<in> exports soljson then Some ''compileJSON'' else None),
       compileJSONMulti =
         (if ''_compileJSONMulti'' \<in> exports soljson then Some ''compileJSONMulti'' else None),
       compileJSONCallback =
         (if ''_compileJSONCallback'' \<in> exports soljson then Some ''compileJSONCallback'' else None),
       compileStandard =
         (let compileStandard =
            (if ''_compileStandard'' \<in> exports soljson then Some ''compileStandard'' else None)
          in if ''_solidity_compile'' \<in> exports soljson then Some ''solidity_compile''
             else compileStandard),
       version =
         (if ''_solidity_version'' \<in> exports soljson then ''solidity_version'' else ''version''),
       license =
         (if ''_solidity_license'' \<in> exports soljson then Some ''solidity_license''
          else if ''_license'' \<in> exports soljson then Some ''license''
          else None) \<rparr>"

section \<open>The callback bridge\<close>

definition wrapCallback :: "callback \<Rightarrow> exn + bridge" where
  "wrapCallback callback =
     (case callback of
        FunctionCb f \<Rightarrow>
          Inr (\<lambda>path.
            case f path of
              Inl e \<Rightarrow> Inl e
            | Inr result \<Rightarrow>
                (case get_prop result ''contents'' of
                   Inl e \<Rightarrow> Inl e
                 | Inr c \<Rightarrow>
                     (case get_prop result ''error'' of
                        Inl e \<Rightarrow> Inl e
                      | Inr er \<Rightarrow> Inr (typeof_string c, typeof_string er))))
      | UndefinedCb \<Rightarrow> Inl (AssertionError ''Invalid callback specified.'')
      | OtherCb \<Rightarrow> Inl (AssertionError ''Invalid callback specified.''))"

definition default_readCallback :: "string \<Rightarrow> exn + jsval" where
  "default_readCallback path = Inr (Obj [(''error'', Str ''File import callback not supported'')])"

text \<open>
  \<^verbatim>\<open>runWithReadCallback(readCallback, compile, args)\<close>. The bridge is built before
  \<^verbatim>\<open>addFunction\<close> is called (its argument is evaluated first); the pointer is pushed
  onto the arguments; \<^verbatim>\<open>removeFunction(cb)\<close> runs in the catch block and after the
  try block. A pointer is the number \<^verbatim>\<open>addFunction\<close> returned.
\<close>

definition runWithReadCallback ::
  "env \<Rightarrow> callback \<Rightarrow> entry_point \<Rightarrow> string \<Rightarrow> jsval list \<Rightarrow> event list
     \<Rightarrow> (exn + string) \<times> event list" where
  "runWithReadCallback env readCallback entry compile args tr =
     (let readCallback =
            (case readCallback of UndefinedCb \<Rightarrow> FunctionCb default_readCallback | c \<Rightarrow> c)
      in case wrapCallback readCallback of
           Inl e \<Rightarrow> (Inl e, tr)
         | Inr wrapped \<Rightarrow>
             (case addFunction env tr of
                Inl e \<Rightarrow> (Inl e, tr)
              | Inr cb \<Rightarrow>
                  (let args = args @ [Num (Fin (of_nat cb))];
                       tr = tr @ [AddFunction cb, NativeCall entry compile args]
                   in case native env compile args (Some wrapped) of
                        Inl e \<Rightarrow>
                          (case removeFunction env cb of
                             Some e' \<Rightarrow> (Inl e', tr @ [RemoveFunction cb])
                           | None \<Rightarrow> (Inl e, tr @ [RemoveFunction cb]))
                      | Inr output \<Rightarrow>
                          (case removeFunction env cb of
                             Some e' \<Rightarrow> (Inl e', tr @ [RemoveFunction cb])
                           | None \<Rightarrow> (Inr output, tr @ [RemoveFunction cb])))))"

section \<open>compileStandardWrapper\<close>

definition formatFatalError :: "env \<Rightarrow> string \<Rightarrow> string" where
  "formatFatalError env message =
     json_stringify env
       (Obj [(''errors'',
              Arr [Obj [(''type'', Str ''SOLCError''),
                        (''component'', Str ''solcjs''),
                        (''severity'', Str ''error''),
                        (''message'', Str message),
                        (''formattedMessage'', Str (''Error: '' @ message))]])])"

text \<open>
  \<^verbatim>\<open>x > 1\<close>: \<^verbatim>\<open>undefined\<close> converts to NaN, \<^verbatim>\<open>null\<close> and \<^verbatim>\<open>false\<close> to 0,
  \<^verbatim>\<open>true\<close> to 1; a string, an array or an object goes through the built-in
  conversion, which may raise.
\<close>

fun jsnum_greater_one :: "jsnum \<Rightarrow> bool" where
  "jsnum_greater_one (Fin q) = (1 < q)"
| "jsnum_greater_one PosInf = True"
| "jsnum_greater_one NegInf = False"

definition greater_than_one :: "env \<Rightarrow> jsval \<Rightarrow> exn + bool" where
  "greater_than_one env v =
     (case v of
        Undefined \<Rightarrow> Inr False
      | Null \<Rightarrow> Inr False
      | Bool b \<Rightarrow> Inr False
      | Num n \<Rightarrow> Inr (jsnum_greater_one n)
      | _ \<Rightarrow>
          (case to_number env v of
             Inl e \<Rightarrow> Inl e
           | Inr None \<Rightarrow> Inr False
           | Inr (Some n) \<Rightarrow> Inr (jsnum_greater_one n)))"

text \<open>
  \<^verbatim>\<open>isOptimizerEnabled\<close>: \<^verbatim>\<open>a && b && c\<close> yields the first falsy operand, else the
  last one.
\<close>

definition isOptimizerEnabled :: "jsval \<Rightarrow> exn + jsval" where
  "isOptimizerEnabled input =
     (case get_prop input ''settings'' of
        Inl e \<Rightarrow> Inl e
      | Inr settings \<Rightarrow>
          if \<not> truthy settings then Inr settings
          else (case get_prop settings ''optimizer'' of
                  Inl e \<Rightarrow> Inl e
                | Inr optimizer \<Rightarrow>
                    if \<not> truthy optimizer then Inr optimizer
                    else get_prop optimizer ''enabled''))"

text \<open>
  \<^verbatim>\<open>translateSources\<close>: the loop over the keys of \<^verbatim>\<open>input['sources']\<close>, with the
  object built so far; \<^verbatim>\<open>null\<close> as soon as a content is \<^verbatim>\<open>null\<close>.
\<close>

fun translateSources_loop ::
  "jsval \<Rightarrow> string list \<Rightarrow> (string \<times> jsval) list \<Rightarrow> exn + jsval" where
  "translateSources_loop srcs [] sources = Inr (Obj sources)"
| "translateSources_loop srcs (source # rest) sources =
     (case get_prop srcs source of
        Inl e \<Rightarrow> Inl e
      | Inr entry \<Rightarrow>
          (case get_prop entry ''content'' of
             Inl e \<Rightarrow> Inl e
           | Inr content \<Rightarrow>
               if content \<noteq> Null
               then translateSources_loop srcs rest (set_prop sources source content)
               else Inr Null))"

definition translateSources :: "jsval \<Rightarrow> exn + jsval" where
  "translateSources input =
     (case get_prop input ''sources'' of
        Inl e \<Rightarrow> Inl e
      | Inr srcs \<Rightarrow> translateSources_loop srcs (for_in_keys srcs) [])"

text \<open>
  \<^verbatim>\<open>librariesSupplied\<close>: the guard is \<^verbatim>\<open>input['settings'] !== null\<close>, which
  \<^verbatim>\<open>undefined\<close> passes; without a return the function yields \<^verbatim>\<open>undefined\<close>.
\<close>

definition librariesSupplied :: "jsval \<Rightarrow> exn + jsval" where
  "librariesSupplied input =
     (case get_prop input ''settings'' of
        Inl e \<Rightarrow> Inl e
      | Inr settings \<Rightarrow>
          if settings \<noteq> Null then get_prop settings ''libraries'' else Inr Undefined)"

text \<open>
  \<^verbatim>\<open>translateOutput(output)\<close> declares one parameter. Every call passes a second
  argument, which the function therefore cannot read; it is \<open>surplus\<close> here.
\<close>

definition translateOutput ::
  "env \<Rightarrow> string \<Rightarrow> jsval list \<Rightarrow> event list \<Rightarrow> (exn + string) \<times> event list" where
  "translateOutput env output surplus tr =
     (case json_parse env output of
        Inl msg \<Rightarrow> (Inr (formatFatalError env (''Compiler returned invalid JSON: '' @ msg)), tr)
      | Inr parsed \<Rightarrow>
          (case translateJsonCompilerOutput env [parsed] of
             Inl e \<Rightarrow> (Inl e, tr @ [TranslateCall [parsed]])
           | Inr translated \<Rightarrow>
               if loosely_null translated
               then (Inr (formatFatalError env ''Failed to process output''),
                     tr @ [TranslateCall [parsed]])
               else (Inr (json_stringify env translated), tr @ [TranslateCall [parsed]])))"

text \<open>A native entry point called without a bridge (\<^verbatim>\<open>compileJSON\<close>, \<^verbatim>\<open>compileJSONMulti\<close>).\<close>

definition call_native ::
  "env \<Rightarrow> entry_point \<Rightarrow> string \<Rightarrow> jsval list \<Rightarrow> event list \<Rightarrow> (exn + string) \<times> event list" where
  "call_native env entry compile args tr =
     (native env compile args None, tr @ [NativeCall entry compile args])"

definition own_keys :: "jsval \<Rightarrow> string list" where
  "own_keys v = (case v of Obj ps \<Rightarrow> map fst ps | _ \<Rightarrow> [])"

text \<open>
  Lines 167 to 189: the sources are extracted, the libraries read, and the first
  entry point present among \<^verbatim>\<open>compileJSONCallback\<close>, \<^verbatim>\<open>compileJSONMulti\<close> and
  \<^verbatim>\<open>compileJSON\<close> is called; its output goes to \<^verbatim>\<open>translateOutput\<close>.
\<close>

definition compileStandardWrapper_dispatch ::
  "methods \<Rightarrow> env \<Rightarrow> jsval \<Rightarrow> callback \<Rightarrow> event list \<Rightarrow> (exn + string) \<times> event list" where
  "compileStandardWrapper_dispatch m env input readCallback tr =
     (case translateSources input of
        Inl e \<Rightarrow> (Inl e, tr)
      | Inr sources \<Rightarrow>
          if sources = Null \<or> own_keys sources = []
          then (Inr (formatFatalError env ''Failed to process sources''), tr)
          else
            (case librariesSupplied input of
               Inl e \<Rightarrow> (Inl e, tr)
             | Inr libraries \<Rightarrow>
                 (case compileJSONCallback m of
                    Some compile \<Rightarrow>
                      (case isOptimizerEnabled input of
                         Inl e \<Rightarrow> (Inl e, tr)
                       | Inr optimize \<Rightarrow>
                           (case runWithReadCallback env readCallback CompileJSONCallback compile
                                   [Str (json_stringify env (Obj [(''sources'', sources)])), optimize] tr of
                              (Inl e, tr') \<Rightarrow> (Inl e, tr')
                            | (Inr output, tr') \<Rightarrow> translateOutput env output [libraries] tr'))
                  | None \<Rightarrow>
                      (case compileJSONMulti m of
                         Some compile \<Rightarrow>
                           (case isOptimizerEnabled input of
                              Inl e \<Rightarrow> (Inl e, tr)
                            | Inr optimize \<Rightarrow>
                                (case call_native env CompileJSONMulti compile
                                        [Str (json_stringify env (Obj [(''sources'', sources)])), optimize] tr of
                                   (Inl e, tr') \<Rightarrow> (Inl e, tr')
                                 | (Inr output, tr') \<Rightarrow> translateOutput env output [libraries] tr'))
                       | None \<Rightarrow>
                           (case compileJSON m of
                              Some compile \<Rightarrow>
                                (case get_prop sources
                                        (case own_keys sources of k # _ \<Rightarrow> k | [] \<Rightarrow> ''undefined'') of
                                   Inl e \<Rightarrow> (Inl e, tr)
                                 | Inr first \<Rightarrow>
                                     (case isOptimizerEnabled input of
                                        Inl e \<Rightarrow> (Inl e, tr)
                                      | Inr optimize \<Rightarrow>
                                          (case call_native env CompileJSON compile [first, optimize] tr of
                                             (Inl e, tr') \<Rightarrow> (Inl e, tr')
                                           | (Inr output, tr') \<Rightarrow>
                                               translateOutput env output [libraries] tr')))
                            | None \<Rightarrow>
                                (Inr (formatFatalError env
                                        ''Compiler does not support any known interface.''), tr))))))"

text \<open>Lines 117 to 129: the checks on the parsed request.\<close>

definition compileStandardWrapper_validate ::
  "methods \<Rightarrow> env \<Rightarrow> jsval \<Rightarrow> callback \<Rightarrow> event list \<Rightarrow> (exn + string) \<times> event list" where
  "compileStandardWrapper_validate m env input readCallback tr =
     (case get_prop input ''language'' of
        Inl e \<Rightarrow> (Inl e, tr)
      | Inr language \<Rightarrow>
          if language \<noteq> Str ''Solidity''
          then (Inr (formatFatalError env ''Only Solidity sources are supported''), tr)
          else
            (case get_prop input ''sources'' of
               Inl e \<Rightarrow> (Inl e, tr)
             | Inr srcs \<Rightarrow>
                 if loosely_null srcs
                 then (Inr (formatFatalError env ''No input specified''), tr)
                 else
                   (case get_prop srcs ''length'' of
                      Inl e \<Rightarrow> (Inl e, tr)
                    | Inr len \<Rightarrow>
                        if len = Num (Fin 0)
                        then (Inr (formatFatalError env ''No input specified''), tr)
                        else
                          (case greater_than_one env len of
                             Inl e \<Rightarrow> (Inl e, tr)
                           | Inr many \<Rightarrow>
                               if many \<and> compileJSONMulti m = None
                               then (Inr (formatFatalError env
                                            ''Multiple sources provided, but compiler only supports single input''), tr)
                               else compileStandardWrapper_dispatch m env input readCallback tr))))"

text \<open>
  \<^verbatim>\<open>compileStandardWrapper(input, readCallback)\<close>, exported as \<^verbatim>\<open>compile\<close>: the
  result (a raised exception on the left) and the history extended by what it did.
\<close>

definition compileStandardWrapper ::
  "methods \<Rightarrow> env \<Rightarrow> string \<Rightarrow> callback \<Rightarrow> event list \<Rightarrow> (exn + string) \<times> event list" where
  "compileStandardWrapper m env input readCallback tr =
     (case compileStandard m of
        Some compile \<Rightarrow> runWithReadCallback env readCallback CompileStandard compile [Str input] tr
      | None \<Rightarrow>
          if \<not> is_undefined readCallback \<and> \<not> typeof_function readCallback
          then (Inr (formatFatalError env ''Invalid import callback supplied''), tr)
          else
            (case json_parse env input of
               Inl msg \<Rightarrow> (Inr (formatFatalError env (''Invalid JSON supplied: '' @ msg)), tr)
             | Inr parsed \<Rightarrow> compileStandardWrapper_validate m env parsed readCallback tr))"

section \<open>Reading a history\<close>

text \<open>
  The function pointers registered and not yet removed, the entry points called, and
  the preference order of the specification: native standard JSON, then
  callback-augmented, then multi-input, then legacy single-input.
\<close>

fun outstanding_step :: "nat list \<Rightarrow> event \<Rightarrow> nat list" where
  "outstanding_step live (AddFunction p) = p # live"
| "outstanding_step live (RemoveFunction p) = remove1 p live"
| "outstanding_step live ev = live"

definition outstanding :: "event list \<Rightarrow> nat list" where
  "outstanding tr = foldl outstanding_step [] tr"

fun native_calls :: "event list \<Rightarrow> entry_point list" where
  "native_calls [] = []"
| "native_calls (NativeCall entry compile args # tr) = entry # native_calls tr"
| "native_calls (ev # tr) = native_calls tr"

fun native_symbols :: "event list \<Rightarrow> string list" where
  "native_symbols [] = []"
| "native_symbols (NativeCall entry compile args # tr) = compile # native_symbols tr"
| "native_symbols (ev # tr) = native_symbols tr"

definition preferred :: "methods \<Rightarrow> entry_point option" where
  "preferred m =
     (if compileStandard m \<noteq> None then Some CompileStandard
      else if compileJSONCallback m \<noteq> None then Some CompileJSONCallback
      else if compileJSONMulti m \<noteq> None then Some CompileJSONMulti
      else if compileJSON m \<noteq> None then Some CompileJSON
      else None)"

section \<open>An environment for the examples\<close>

text \<open>
  The examples run the wrapper in a small environment. Its \<^verbatim>\<open>JSON.parse\<close> is the
  table of the documents the examples use, with the value the built-in returns for
  each. Its \<^verbatim>\<open>JSON.stringify\<close> is the built-in on values whose numbers are integers
  and whose strings need no escape other than the quote and the backslash. The
  native module answers every call with one fixed document, or faults.
\<close>

fun escape_string :: "string \<Rightarrow> string" where
  "escape_string [] = []"
| "escape_string (c # cs) =
     (if c = CHR 0x22 \<or> c = CHR 0x5C then CHR 0x5C # c # escape_string cs
      else c # escape_string cs)"

fun join_commas :: "string list \<Rightarrow> string" where
  "join_commas [] = []"
| "join_commas [x] = x"
| "join_commas (x # y # ys) = x @ '','' @ join_commas (y # ys)"

fun example_stringify :: "jsval \<Rightarrow> string"
  and example_stringify_items :: "jsval list \<Rightarrow> string list"
  and example_stringify_props :: "(string \<times> jsval) list \<Rightarrow> string list" where
  "example_stringify Undefined = ''null''"
| "example_stringify Null = ''null''"
| "example_stringify (Bool b) = (if b then ''true'' else ''false'')"
| "example_stringify (Num n) =
     (case n of
        Fin q \<Rightarrow>
          (if 0 \<le> q then string_of_nat (nat \<lfloor>q\<rfloor>)
           else CHR ''-'' # string_of_nat (nat \<lfloor>- q\<rfloor>))
      | PosInf \<Rightarrow> ''null''
      | NegInf \<Rightarrow> ''null'')"
| "example_stringify (Str s) = CHR 0x22 # escape_string s @ [CHR 0x22]"
| "example_stringify (Arr xs) = ''['' @ join_commas (example_stringify_items xs) @ '']''"
| "example_stringify (Obj ps) = ''{'' @ join_commas (example_stringify_props ps) @ ''}''"
| "example_stringify_items [] = []"
| "example_stringify_items (x # xs) = example_stringify x # example_stringify_items xs"
| "example_stringify_props [] = []"
| "example_stringify_props ((k, v) # ps) =
     (if v = Undefined then example_stringify_props ps
      else (CHR 0x22 # escape_string k @ [CHR 0x22] @ '':'' @ example_stringify v)
           # example_stringify_props ps)"

definition request_no_settings :: string where
  \<open>request_no_settings = ''{"language":"Solidity","sources":{"a.sol":{"content":"x"}}}''\<close>

definition request_empty_sources :: string where
  \<open>request_empty_sources = ''{"language":"Solidity","sources":{}}''\<close>

definition request_two_sources :: string where
  \<open>request_two_sources =
     ''{"language":"Solidity","sources":{"a.sol":{"content":"x"},"b.sol":{"content":"y"}},"settings":{}}''\<close>

definition request_libraries :: string where
  \<open>request_libraries =
     ''{"language":"Solidity","sources":{"a.sol":{"content":"x"}},"settings":{"libraries":{"a.sol":{"L":"0x12"}}}}''\<close>

definition request_yul :: string where
  \<open>request_yul = ''{"language":"Yul","sources":{"a.yul":{"content":"{}"}}}''\<close>

definition native_output :: string where
  \<open>native_output = ''{"contracts":{}}''\<close>

definition example_documents :: "(string \<times> jsval) list" where
  "example_documents =
     [(request_no_settings,
       Obj [(''language'', Str ''Solidity''),
            (''sources'', Obj [(''a.sol'', Obj [(''content'', Str ''x'')])])]),
      (request_empty_sources,
       Obj [(''language'', Str ''Solidity''), (''sources'', Obj [])]),
      (request_two_sources,
       Obj [(''language'', Str ''Solidity''),
            (''sources'', Obj [(''a.sol'', Obj [(''content'', Str ''x'')]),
                               (''b.sol'', Obj [(''content'', Str ''y'')])]),
            (''settings'', Obj [])]),
      (request_libraries,
       Obj [(''language'', Str ''Solidity''),
            (''sources'', Obj [(''a.sol'', Obj [(''content'', Str ''x'')])]),
            (''settings'',
             Obj [(''libraries'', Obj [(''a.sol'', Obj [(''L'', Str ''0x12'')])])])]),
      (request_yul,
       Obj [(''language'', Str ''Yul''),
            (''sources'', Obj [(''a.yul'', Obj [(''content'', Str ''{}'')])])]),
      (native_output, Obj [(''contracts'', Obj [])])]"

definition example_parse :: "string \<Rightarrow> string + jsval" where
  "example_parse s =
     (case map_of example_documents s of
        Some v \<Rightarrow> Inr v
      | None \<Rightarrow> Inl ''Unexpected token'')"

definition example_env :: env where
  "example_env =
     \<lparr> json_parse = example_parse,
       json_stringify = example_stringify,
       to_number = (\<lambda>v. Inr None),
       translateJsonCompilerOutput =
         (\<lambda>arguments. case arguments of [] \<Rightarrow> Inr Undefined | output # rest \<Rightarrow> Inr output),
       native = (\<lambda>compile args wrapped. Inr native_output),
       addFunction = (\<lambda>tr. Inr (2 * (1 + length (outstanding tr)))),
       removeFunction = (\<lambda>cb. None) \<rparr>"

definition faulting_env :: env where
  "faulting_env = example_env \<lparr> native := (\<lambda>compile args wrapped. Inl (Fault ''abort'')) \<rparr>"

text \<open>Module handles of the four generations.\<close>

definition legacy_handle :: handle where
  "legacy_handle = \<lparr> exports = {''_compileJSON'', ''_version''} \<rparr>"

definition multi_handle :: handle where
  "multi_handle = \<lparr> exports = {''_compileJSON'', ''_compileJSONMulti'', ''_version''} \<rparr>"

definition callback_handle :: handle where
  "callback_handle =
     \<lparr> exports = {''_compileJSON'', ''_compileJSONMulti'', ''_compileJSONCallback'', ''_version''} \<rparr>"

definition standard_handle :: handle where
  "standard_handle =
     \<lparr> exports = {''_compileJSON'', ''_compileJSONMulti'', ''_compileJSONCallback'',
                  ''_compileStandard'', ''_solidity_compile'', ''_version'', ''_license''} \<rparr>"

section \<open>Histories of the callback bridge\<close>

lemma native_calls_append: "native_calls (xs @ ys) = native_calls xs @ native_calls ys"
  by (induction xs rule: native_calls.induct) simp_all

lemma native_symbols_append: "native_symbols (xs @ ys) = native_symbols xs @ native_symbols ys"
  by (induction xs rule: native_symbols.induct) simp_all

lemma outstanding_append:
  "outstanding (xs @ ys) = foldl outstanding_step (outstanding xs) ys"
  by (simp add: outstanding_def)

lemma wrapCallback_function:
  "is_undefined c \<or> typeof_function c \<Longrightarrow>
   \<exists>w. wrapCallback (case c of UndefinedCb \<Rightarrow> FunctionCb default_readCallback | c' \<Rightarrow> c') = Inr w"
  by (cases c) (simp_all add: wrapCallback_def)

lemma runWithReadCallback_registered:
  assumes "is_undefined readCallback \<or> typeof_function readCallback"
    and "addFunction env tr = Inr cb"
  shows "snd (runWithReadCallback env readCallback entry compile args tr)
           = tr @ [AddFunction cb, NativeCall entry compile (args @ [Num (Fin (of_nat cb))]),
                   RemoveFunction cb]"
proof -
  obtain w where
    "wrapCallback (case readCallback of UndefinedCb \<Rightarrow> FunctionCb default_readCallback | c' \<Rightarrow> c')
       = Inr w"
    using wrapCallback_function [OF assms(1)] by blast
  then show ?thesis
    using assms(2)
    by (simp add: runWithReadCallback_def Let_def split: sum.splits option.splits)
qed

lemma runWithReadCallback_not_registered:
  assumes "(\<not> is_undefined readCallback \<and> \<not> typeof_function readCallback)
             \<or> addFunction env tr = Inl e"
  shows "runWithReadCallback env readCallback entry compile args tr
           = (if \<not> is_undefined readCallback \<and> \<not> typeof_function readCallback
              then Inl (AssertionError ''Invalid callback specified.'') else Inl e, tr)"
  using assms
  by (cases readCallback)
     (auto simp add: runWithReadCallback_def wrapCallback_def Let_def
           split: sum.splits option.splits)

lemma runWithReadCallback_trace:
  "snd (runWithReadCallback env readCallback entry compile args tr) = tr \<or>
   (\<exists>cb. snd (runWithReadCallback env readCallback entry compile args tr)
           = tr @ [AddFunction cb, NativeCall entry compile (args @ [Num (Fin (of_nat cb))]),
                   RemoveFunction cb])"
proof (cases "is_undefined readCallback \<or> typeof_function readCallback")
  case True
  show ?thesis
  proof (cases "addFunction env tr")
    case (Inl e)
    then show ?thesis using runWithReadCallback_not_registered [of readCallback env tr e] by simp
  next
    case (Inr cb)
    then show ?thesis using runWithReadCallback_registered [OF True] by blast
  qed
next
  case False
  then show ?thesis using runWithReadCallback_not_registered [of readCallback env tr] by simp
qed

text \<open>
  C6. Whenever \<^verbatim>\<open>runWithReadCallback\<close> registers a bridge (the read callback is
  absent or a function, and \<^verbatim>\<open>addFunction\<close> returned the pointer \<open>cb\<close>), what it adds
  to the history is the registration, the one native call with \<open>cb\<close> as its last
  argument, and one \<^verbatim>\<open>removeFunction(cb)\<close>, in this order, whatever the native call
  does (return or raise) and whatever \<^verbatim>\<open>removeFunction\<close> does; the pointers
  outstanding afterwards are those outstanding before.
\<close>

theorem runWithReadCallback_removes_pointer_once:
  assumes "is_undefined readCallback \<or> typeof_function readCallback"
    and "addFunction env tr = Inr cb"
  shows "snd (runWithReadCallback env readCallback entry compile args tr)
           = tr @ [AddFunction cb, NativeCall entry compile (args @ [Num (Fin (of_nat cb))]),
                   RemoveFunction cb]
         \<and> outstanding (snd (runWithReadCallback env readCallback entry compile args tr))
           = outstanding tr"
  using runWithReadCallback_registered [OF assms]
  by (simp add: outstanding_append)

theorem runWithReadCallback_removes_pointer_once_witness:
  "(is_undefined UndefinedCb \<or> typeof_function UndefinedCb)
   \<and> addFunction example_env [] = Inr 2
   \<and> addFunction faulting_env [] = Inr 2
   \<and> runWithReadCallback example_env UndefinedCb CompileStandard ''solidity_compile'' [Str request_yul] []
       = (Inr native_output,
          [AddFunction 2,
           NativeCall CompileStandard ''solidity_compile'' [Str request_yul, Num (Fin 2)],
           RemoveFunction 2])
   \<and> runWithReadCallback faulting_env UndefinedCb CompileStandard ''solidity_compile'' [Str request_yul] []
       = (Inl (Fault ''abort''),
          [AddFunction 2,
           NativeCall CompileStandard ''solidity_compile'' [Str request_yul, Num (Fin 2)],
           RemoveFunction 2])
   \<and> outstanding (snd (runWithReadCallback example_env UndefinedCb CompileStandard
                          ''solidity_compile'' [Str request_yul] [])) = []
   \<and> outstanding (snd (runWithReadCallback faulting_env UndefinedCb CompileStandard
                          ''solidity_compile'' [Str request_yul] [])) = []"
  using runWithReadCallback_removes_pointer_once
          [of UndefinedCb example_env "[]" 2 CompileStandard "''solidity_compile''" "[Str request_yul]"]
        runWithReadCallback_removes_pointer_once
          [of UndefinedCb faulting_env "[]" 2 CompileStandard "''solidity_compile''" "[Str request_yul]"]
  by (simp add: example_env_def faulting_env_def outstanding_def runWithReadCallback_def
        wrapCallback_def)

section \<open>Histories of compile\<close>

lemmas wrapper_defs =
  compileStandardWrapper_def compileStandardWrapper_validate_def
  compileStandardWrapper_dispatch_def translateSources_def librariesSupplied_def
  isOptimizerEnabled_def translateOutput_def call_native_def runWithReadCallback_def
  wrapCallback_def greater_than_one_def loosely_null_def own_keys_def set_prop_def
  formatFatalError_def setupMethods_def

lemmas example_document_defs =
  example_parse_def example_documents_def request_no_settings_def
  request_empty_sources_def request_two_sources_def request_libraries_def
  request_yul_def native_output_def

lemma translateOutput_trace:
  "snd (translateOutput env out surplus tr) = tr \<or>
   (\<exists>parsed. snd (translateOutput env out surplus tr) = tr @ [TranslateCall [parsed]])"
  by (simp add: translateOutput_def split: sum.splits)

lemma translateOutput_native_calls:
  "native_calls (snd (translateOutput env out surplus tr)) = native_calls tr"
  using translateOutput_trace [of env out surplus tr]
  by (auto simp add: native_calls_append)

lemma runWithReadCallback_native_calls:
  "native_calls (snd (runWithReadCallback env readCallback entry compile args tr)) = native_calls tr
   \<or> native_calls (snd (runWithReadCallback env readCallback entry compile args tr))
       = native_calls tr @ [entry]"
  using runWithReadCallback_trace [of env readCallback entry compile args tr]
  by (auto simp add: native_calls_append)

lemma call_native_native_calls:
  "native_calls (snd (call_native env entry compile args tr)) = native_calls tr @ [entry]"
  by (simp add: call_native_def native_calls_append)

lemma then_translate_native_calls:
  "native_calls (snd (case r of (Inl e, tr') \<Rightarrow> (Inl e, tr')
                      | (Inr out, tr') \<Rightarrow> translateOutput env out surplus tr'))
     = native_calls (snd r)"
  by (cases r) (simp add: translateOutput_native_calls split: sum.splits)

lemma dispatch_native_calls:
  assumes "compileStandard m = None"
  shows "native_calls (snd (compileStandardWrapper_dispatch m env input readCallback tr))
           = native_calls tr
       \<or> (\<exists>e. native_calls (snd (compileStandardWrapper_dispatch m env input readCallback tr))
                 = native_calls tr @ [e] \<and> preferred m = Some e)"
proof (cases "compileJSONCallback m")
  case (Some compile)
  then have p: "preferred m = Some CompileJSONCallback"
    using assms by (simp add: preferred_def)
  show ?thesis
    using runWithReadCallback_native_calls
    unfolding compileStandardWrapper_dispatch_def Some p
    by (simp add: then_translate_native_calls split: sum.splits)
next
  case None
  note no_callback = None
  show ?thesis
  proof (cases "compileJSONMulti m")
    case (Some compile)
    then have p: "preferred m = Some CompileJSONMulti"
      using assms no_callback by (simp add: preferred_def)
    show ?thesis
      unfolding compileStandardWrapper_dispatch_def Some p no_callback
      by (simp add: then_translate_native_calls call_native_native_calls split: sum.splits)
  next
    case None
    note no_multi = None
    show ?thesis
    proof (cases "compileJSON m")
      case (Some compile)
      then have p: "preferred m = Some CompileJSON"
        using assms no_callback no_multi by (simp add: preferred_def)
      show ?thesis
        unfolding compileStandardWrapper_dispatch_def Some p no_callback no_multi
        by (simp add: then_translate_native_calls call_native_native_calls split: sum.splits)
    next
      case None
      show ?thesis
        unfolding compileStandardWrapper_dispatch_def None no_callback no_multi
        by (simp split: sum.splits)
    qed
  qed
qed

lemma validate_native_calls:
  assumes "compileStandard m = None"
  shows "native_calls (snd (compileStandardWrapper_validate m env input readCallback tr))
           = native_calls tr
       \<or> (\<exists>e. native_calls (snd (compileStandardWrapper_validate m env input readCallback tr))
                 = native_calls tr @ [e] \<and> preferred m = Some e)"
  using dispatch_native_calls [OF assms, of env input readCallback tr]
  unfolding compileStandardWrapper_validate_def
  by (simp split: sum.splits)

text \<open>
  C7. For every capability record, environment, request and read callback, one call
  of \<^verbatim>\<open>compile\<close> adds to the history either no native call or exactly one, and then
  the entry point called is the first one present in the order native standard JSON,
  callback-augmented, multi-input, legacy single-input.
\<close>

theorem compile_calls_at_most_the_preferred_entry_point:
  "native_calls (snd (compileStandardWrapper m env input readCallback tr)) = native_calls tr
   \<or> (\<exists>e. native_calls (snd (compileStandardWrapper m env input readCallback tr))
             = native_calls tr @ [e] \<and> preferred m = Some e)"
proof (cases "compileStandard m")
  case None
  then show ?thesis
    using validate_native_calls [OF None, of env _ readCallback tr]
    unfolding compileStandardWrapper_def
    by (simp split: sum.splits)
next
  case (Some compile)
  then have p: "preferred m = Some CompileStandard"
    by (simp add: preferred_def)
  show ?thesis
    using runWithReadCallback_native_calls
            [of env readCallback CompileStandard compile "[Str input]" tr]
    unfolding compileStandardWrapper_def Some p
    by simp
qed

theorem compile_calls_at_most_the_preferred_entry_point_witness:
  "native_calls (snd (compileStandardWrapper (setupMethods standard_handle) example_env
                        request_libraries UndefinedCb [])) = [CompileStandard]
   \<and> preferred (setupMethods standard_handle) = Some CompileStandard
   \<and> native_calls (snd (compileStandardWrapper (setupMethods callback_handle) example_env
                          request_libraries UndefinedCb [])) = [CompileJSONCallback]
   \<and> preferred (setupMethods callback_handle) = Some CompileJSONCallback
   \<and> native_calls (snd (compileStandardWrapper (setupMethods multi_handle) example_env
                          request_libraries UndefinedCb [])) = [CompileJSONMulti]
   \<and> preferred (setupMethods multi_handle) = Some CompileJSONMulti
   \<and> native_calls (snd (compileStandardWrapper (setupMethods legacy_handle) example_env
                          request_libraries UndefinedCb [])) = [CompileJSON]
   \<and> preferred (setupMethods legacy_handle) = Some CompileJSON
   \<and> native_calls (snd (compileStandardWrapper (setupMethods legacy_handle) example_env
                          request_yul UndefinedCb [])) = []"
  using compile_calls_at_most_the_preferred_entry_point
          [of "setupMethods standard_handle" example_env request_libraries UndefinedCb "[]"]
  by (simp add: wrapper_defs preferred_def example_env_def example_document_defs
        standard_handle_def callback_handle_def multi_handle_def legacy_handle_def
        outstanding_def)

section \<open>The guards of compile\<close>

text \<open>
  C9. Without a native standard-JSON entry point, a read callback that is defined and
  is not a function makes \<^verbatim>\<open>compile\<close> return the fatal response with the message
  \<^verbatim>\<open>Invalid import callback supplied\<close>: nothing is raised, nothing is added to the
  history, and the result is the same whatever \<^verbatim>\<open>JSON.parse\<close> would do with the
  input, which is not parsed at that point.
\<close>

theorem compile_rejects_invalid_callback:
  assumes "compileStandard m = None"
    and "\<not> is_undefined readCallback"
    and "\<not> typeof_function readCallback"
  shows "compileStandardWrapper m (env \<lparr> json_parse := parse \<rparr>) input readCallback tr
           = (Inr (formatFatalError env ''Invalid import callback supplied''), tr)"
  using assms by (simp add: compileStandardWrapper_def formatFatalError_def)

theorem compile_rejects_invalid_callback_witness:
  \<open>compileStandard (setupMethods legacy_handle) = None
   \<and> \<not> is_undefined OtherCb
   \<and> \<not> typeof_function OtherCb
   \<and> compileStandardWrapper (setupMethods legacy_handle)
         (example_env \<lparr> json_parse := example_parse \<rparr>) ''{'' OtherCb []
       = (Inr ''{"errors":[{"type":"SOLCError","component":"solcjs","severity":"error","message":"Invalid import callback supplied","formattedMessage":"Error: Invalid import callback supplied"}]}'',
          [])\<close>
  using compile_rejects_invalid_callback
          [where m = "setupMethods legacy_handle" and readCallback = OtherCb
             and env = example_env and parse = example_parse and input = "''{''" and tr = "[]"]
  by (simp add: setupMethods_def legacy_handle_def example_env_def formatFatalError_def)

text \<open>
  C10. When the module exports both \<^verbatim>\<open>_compileStandard\<close> and
  \<^verbatim>\<open>_solidity_compile\<close>, \<^verbatim>\<open>setupMethods\<close> binds the standard-JSON path to the symbol
  \<^verbatim>\<open>solidity_compile\<close>, and a call of \<^verbatim>\<open>compile\<close> adds to the native symbols called
  either nothing or \<^verbatim>\<open>solidity_compile\<close> alone: \<^verbatim>\<open>compileStandard\<close> is not called.
\<close>

theorem solidity_compile_overrides_compileStandard:
  assumes "''_compileStandard'' \<in> exports soljson"
    and "''_solidity_compile'' \<in> exports soljson"
  shows "compileStandard (setupMethods soljson) = Some ''solidity_compile''
         \<and> (native_symbols (snd (compileStandardWrapper (setupMethods soljson) env input
                                    readCallback tr))
               = native_symbols tr
             \<or> native_symbols (snd (compileStandardWrapper (setupMethods soljson) env input
                                      readCallback tr))
               = native_symbols tr @ [''solidity_compile''])"
proof -
  have bound: "compileStandard (setupMethods soljson) = Some ''solidity_compile''"
    using assms by (simp add: setupMethods_def)
  show ?thesis
    using runWithReadCallback_trace
            [of env readCallback CompileStandard "''solidity_compile''" "[Str input]" tr]
    unfolding compileStandardWrapper_def bound
    by (auto simp add: native_symbols_append)
qed

theorem solidity_compile_overrides_compileStandard_witness:
  "''_compileStandard'' \<in> exports standard_handle
   \<and> ''_solidity_compile'' \<in> exports standard_handle
   \<and> compileStandard (setupMethods standard_handle) = Some ''solidity_compile''
   \<and> native_symbols (snd (compileStandardWrapper (setupMethods standard_handle) example_env
                             request_yul UndefinedCb [])) = [''solidity_compile'']"
  using solidity_compile_overrides_compileStandard
          [of standard_handle example_env request_yul UndefinedCb "[]"]
  by (simp add: wrapper_defs standard_handle_def example_env_def outstanding_def)

text \<open>
  C8, as the code has it. Without a native standard-JSON entry point, with a read
  callback that is absent or a function, for every request that \<^verbatim>\<open>JSON.parse\<close>
  accepts and whose \<^verbatim>\<open>language\<close> property can be read and is not the string
  \<^verbatim>\<open>Solidity\<close>, \<^verbatim>\<open>compile\<close> returns the fatal response with the message
  \<^verbatim>\<open>Only Solidity sources are supported\<close> and adds nothing to the history: no
  native call is made.
\<close>

theorem compile_rejects_other_languages:
  assumes "compileStandard m = None"
    and "is_undefined readCallback \<or> typeof_function readCallback"
    and "json_parse env input = Inr parsed"
    and "get_prop parsed ''language'' = Inr language"
    and "language \<noteq> Str ''Solidity''"
  shows "compileStandardWrapper m env input readCallback tr
           = (Inr (formatFatalError env ''Only Solidity sources are supported''), tr)"
  using assms
  by (auto simp add: compileStandardWrapper_def compileStandardWrapper_validate_def)

theorem compile_rejects_other_languages_witness:
  \<open>compileStandard (setupMethods callback_handle) = None
   \<and> (is_undefined UndefinedCb \<or> typeof_function UndefinedCb)
   \<and> json_parse example_env request_yul
       = Inr (Obj [(''language'', Str ''Yul''),
                   (''sources'', Obj [(''a.yul'', Obj [(''content'', Str ''{}'')])])])
   \<and> get_prop (Obj [(''language'', Str ''Yul''),
                   (''sources'', Obj [(''a.yul'', Obj [(''content'', Str ''{}'')])])])
        ''language''
       = Inr (Str ''Yul'')
   \<and> Str ''Yul'' \<noteq> Str ''Solidity''
   \<and> compileStandardWrapper (setupMethods callback_handle) example_env request_yul UndefinedCb []
       = (Inr ''{"errors":[{"type":"SOLCError","component":"solcjs","severity":"error","message":"Only Solidity sources are supported","formattedMessage":"Error: Only Solidity sources are supported"}]}'',
          [])\<close>
  using compile_rejects_other_languages
          [of "setupMethods callback_handle" UndefinedCb example_env request_yul
              "Obj [(''language'', Str ''Yul''),
                    (''sources'', Obj [(''a.yul'', Obj [(''content'', Str ''{}'')])])]"
              "Str ''Yul''" "[]"]
  by (simp add: setupMethods_def callback_handle_def example_env_def example_document_defs
        formatFatalError_def)

text \<open>
  With a native standard-JSON entry point the request goes to it unchecked: the Yul
  request reaches \<^verbatim>\<open>solidity_compile\<close>, and what \<^verbatim>\<open>compile\<close> returns is the native
  output, not the fatal response.
\<close>

theorem compile_passes_other_languages_to_native_standard:
  "compileStandardWrapper (setupMethods standard_handle) example_env request_yul UndefinedCb []
     = (Inr native_output,
        [AddFunction 2,
         NativeCall CompileStandard ''solidity_compile'' [Str request_yul, Num (Fin 2)],
         RemoveFunction 2])
   \<and> (Inr native_output :: exn + string)
       \<noteq> Inr (formatFatalError example_env ''Only Solidity sources are supported'')
   \<and> native_calls (snd (compileStandardWrapper (setupMethods standard_handle) example_env
                          request_yul UndefinedCb [])) \<noteq> []"
  by (simp add: wrapper_defs standard_handle_def example_env_def native_output_def
        outstanding_def)

section \<open>Where compile departs from its contract\<close>

text \<open>
  C1. The request \<^verbatim>\<open>{"language":"Solidity","sources":{"a.sol":{"content":"x"}}}\<close>
  is parseable and has no settings block. On a module with the callback-augmented,
  multi-input and legacy entry points and no native standard-JSON one, \<^verbatim>\<open>compile\<close>
  raises a TypeError and the history stays empty: \<^verbatim>\<open>librariesSupplied\<close> reads
  \<^verbatim>\<open>input['settings']['libraries']\<close> behind the guard \<^verbatim>\<open>!== null\<close>, which
  \<^verbatim>\<open>undefined\<close> passes. The exception reaches the caller and does not come from a
  native call, none having been made.
\<close>

theorem compile_raises_without_settings:
  "compileStandardWrapper (setupMethods callback_handle) example_env request_no_settings
     UndefinedCb []
     = (Inl TypeError, [])"
  by (simp add: wrapper_defs callback_handle_def example_env_def example_document_defs)

text \<open>
  C2. The request \<^verbatim>\<open>{"language":"Solidity","sources":{}}\<close> on a module with the
  legacy entry point only: \<^verbatim>\<open>compile\<close> makes no native call and returns a fatal
  response, but its message is \<^verbatim>\<open>Failed to process sources\<close>, not
  \<^verbatim>\<open>No input specified\<close>. The test \<^verbatim>\<open>input['sources'].length === 0\<close> reads the
  \<^verbatim>\<open>length\<close> of an object, which is \<^verbatim>\<open>undefined\<close>, so the empty mapping passes it
  and is caught only after \<^verbatim>\<open>translateSources\<close>.
\<close>

theorem compile_empty_sources_message:
  \<open>compileStandardWrapper (setupMethods legacy_handle) example_env request_empty_sources
     UndefinedCb []
     = (Inr ''{"errors":[{"type":"SOLCError","component":"solcjs","severity":"error","message":"Failed to process sources","formattedMessage":"Error: Failed to process sources"}]}'',
        [])
   \<and> formatFatalError example_env ''Failed to process sources''
       = ''{"errors":[{"type":"SOLCError","component":"solcjs","severity":"error","message":"Failed to process sources","formattedMessage":"Error: Failed to process sources"}]}''
   \<and> formatFatalError example_env ''No input specified''
       = ''{"errors":[{"type":"SOLCError","component":"solcjs","severity":"error","message":"No input specified","formattedMessage":"Error: No input specified"}]}''\<close>
  by (simp add: wrapper_defs legacy_handle_def example_env_def example_document_defs)

text \<open>
  C3. The request with the two sources \<^verbatim>\<open>a.sol\<close> and \<^verbatim>\<open>b.sol\<close> (and an empty
  settings block) on a module with the legacy entry point only: \<^verbatim>\<open>compile\<close> does
  not return the fatal response about multiple sources. The test
  \<^verbatim>\<open>input['sources'].length > 1\<close> compares \<^verbatim>\<open>undefined\<close> with 1, so the request
  goes on: \<^verbatim>\<open>compileJSON\<close> is called with the content of the first source and the
  \<^verbatim>\<open>undefined\<close> optimizer flag, and the second source is dropped.
\<close>

theorem compile_two_sources_calls_legacy:
  "compileStandardWrapper (setupMethods legacy_handle) example_env request_two_sources
     UndefinedCb []
     = (Inr native_output,
        [NativeCall CompileJSON ''compileJSON'' [Str ''x'', Undefined],
         TranslateCall [Obj [(''contracts'', Obj [])]]])"
  by (simp add: wrapper_defs legacy_handle_def example_env_def example_document_defs)

text \<open>
  C4. The request \<^verbatim>\<open>{"language":"Solidity","sources":{"a.sol":{"content":"x"}}}\<close>
  on a module with the legacy entry point only: \<^verbatim>\<open>compile\<close> raises a TypeError in
  \<^verbatim>\<open>librariesSupplied\<close>, which runs before the entry point is chosen, so
  \<^verbatim>\<open>compileJSON\<close> is not called and nothing reaches the translator.
\<close>

theorem compile_scenario_without_settings:
  "compileStandardWrapper (setupMethods legacy_handle) example_env request_no_settings
     UndefinedCb []
     = (Inl TypeError, [])
   \<and> native_calls (snd (compileStandardWrapper (setupMethods legacy_handle) example_env
                          request_no_settings UndefinedCb [])) = []"
  by (simp add: wrapper_defs legacy_handle_def example_env_def example_document_defs)

text \<open>
  C5. The request whose settings block supplies the library \<^verbatim>\<open>L\<close> of \<^verbatim>\<open>a.sol\<close>,
  on a module with the legacy entry point only: \<^verbatim>\<open>librariesSupplied\<close> extracts the
  addresses, and the translator is called with the parsed native output as its only
  argument. \<^verbatim>\<open>translateOutput\<close> declares the one parameter \<^verbatim>\<open>output\<close>, so the
  \<^verbatim>\<open>libraries\<close> that each call site passes are dropped.
\<close>

theorem compile_drops_libraries:
  "librariesSupplied
     (Obj [(''language'', Str ''Solidity''),
           (''sources'', Obj [(''a.sol'', Obj [(''content'', Str ''x'')])]),
           (''settings'',
            Obj [(''libraries'', Obj [(''a.sol'', Obj [(''L'', Str ''0x12'')])])])])
     = Inr (Obj [(''a.sol'', Obj [(''L'', Str ''0x12'')])])
   \<and> compileStandardWrapper (setupMethods legacy_handle) example_env request_libraries
       UndefinedCb []
     = (Inr native_output,
        [NativeCall CompileJSON ''compileJSON'' [Str ''x'', Undefined],
         TranslateCall [Obj [(''contracts'', Obj [])]]])"
  by (simp add: wrapper_defs legacy_handle_def example_env_def example_document_defs)

end
